theory Spec2Isabelle
  imports Complex_Main
begin

section \<open>The hydrograph driver of the kinematic-wave notebook\<close>

text \<open>
  The repository is one Jupyter notebook, \<^verbatim>\<open>KinwaveImplicitOverlandFlow_driver.ipynb\<close>.
  It imports the overland-flow component from the landlab package, builds it on a
  raster grid and drives it through a storm of 1.5 hours inside a run of 4 hours.
  The development below embeds the code cells that schedule the runoff rate and
  step the component. Python floats are read as reals and Python ints as integers;
  every float constant of the notebook that takes part in a comparison
  (\<^verbatim>\<open>1.5*3600\<close>, \<^verbatim>\<open>4.0*3600\<close>) is exact in binary floating point.
\<close>

subsection \<open>Input parameters (the cell under "Input parameters")\<close>

definition starting_precip_mmhr :: real where
  "starting_precip_mmhr = 87"

definition storm_duration :: real where
  "storm_duration = 1.5"

definition model_run_time :: real where
  "model_run_time = 4.0"

text \<open>Manning's roughness, \<^verbatim>\<open>n = 0.15\<close> in the notebook.\<close>

definition n_roughness :: real where
  "n_roughness = 0.15"

definition dt :: int where
  "dt = 500"

definition storm_duration_sec :: real where
  "storm_duration_sec = storm_duration * 3600"

definition model_run_time_sec :: real where
  "model_run_time_sec = model_run_time * 3600"

subsection \<open>What the notebook takes from landlab\<close>

text \<open>
  The class \<^verbatim>\<open>KinwaveImplicitOverlandFlow\<close> is imported from landlab; its body is no
  part of the repository, so nothing of it is defined here. Its operations are
  parameters of the driver, over a component state \<open>'k\<close>, a grid state \<open>'g\<close> and an
  exception type \<open>'e\<close> of any kind:
  \<^item> the constructor, which the notebook calls on the grid with
    \<^verbatim>\<open>runoff_rate=0.0, roughness=n, depth_exp=5/3\<close>;
  \<^item> the property assignment \<^verbatim>\<open>kw.runoff_rate = new_rate\<close>, which may raise (the
    loop's comment speaks of an assertion on the rate) or give the updated component;
  \<^item> \<^verbatim>\<open>kw.run_one_step(dt)\<close>, which may change the component and the grid;
  \<^item> the read of the field \<^verbatim>\<open>surface_water_inflow__discharge\<close> at a node.
  The three sample nodes come from the earlier cells of the notebook.
\<close>

record ('e, 'k, 'g) landlab =
  KinwaveImplicitOverlandFlow :: "'g \<Rightarrow> real \<Rightarrow> real \<Rightarrow> real \<Rightarrow> 'k \<times> 'g"
  set_runoff_rate :: "'k \<Rightarrow> real \<Rightarrow> 'e + 'k"
  run_one_step :: "'k \<Rightarrow> int \<Rightarrow> 'g \<Rightarrow> 'k \<times> 'g"
  inflow_discharge :: "'g \<Rightarrow> nat \<Rightarrow> real"
  outlet_node_to_sample :: nat
  midstream_node_to_sample :: nat
  upstream_node_to_sample :: nat

subsection \<open>The loop that drives the component\<close>

text \<open>
  The variables of the loop cell; \<open>printed\<close> is the output of the \<^verbatim>\<open>print\<close> statement.
\<close>

record ('k, 'g) driver_state =
  elapsed_time :: int
  kw :: 'k
  rmg :: 'g
  hydrograph_time :: "real list"
  discharge_at_outlet :: "real list"
  discharge_midstream :: "real list"
  discharge_upstream :: "real list"
  printed :: "int list"

text \<open>The rate the \<^verbatim>\<open>if\<close>/\<^verbatim>\<open>else\<close> of the loop assigns at a given elapsed time.\<close>

definition scheduled_rate :: "int \<Rightarrow> real" where
  "scheduled_rate t =
     (if real_of_int t < storm_duration_sec then starting_precip_mmhr else 1 / 10 ^ 20)"

text \<open>
  One pass through the body of the \<^verbatim>\<open>while\<close>: the assignment of the rate, whose
  exception ends the run, then the step, the three samples, the print and the clock.
\<close>

definition loop_body ::
  "('e, 'k, 'g) landlab \<Rightarrow> ('k, 'g) driver_state \<Rightarrow> 'e + ('k, 'g) driver_state" where
  "loop_body L st =
     (case set_runoff_rate L (kw st) (scheduled_rate (elapsed_time st)) of
        Inl e \<Rightarrow> Inl e
      | Inr k \<Rightarrow>
          (case run_one_step L k dt (rmg st) of
             (k', g) \<Rightarrow>
               Inr (st\<lparr>kw := k',
                       rmg := g,
                       hydrograph_time :=
                         hydrograph_time st @ [real_of_int (elapsed_time st) / 3600],
                       discharge_at_outlet :=
                         discharge_at_outlet st @
                           [inflow_discharge L g (outlet_node_to_sample L)],
                       discharge_midstream :=
                         discharge_midstream st @
                           [inflow_discharge L g (midstream_node_to_sample L)],
                       discharge_upstream :=
                         discharge_upstream st @
                           [inflow_discharge L g (upstream_node_to_sample L)],
                       printed :=
                         (if elapsed_time st mod 100 < 2 then printed st @ [elapsed_time st]
                          else printed st),
                       elapsed_time := elapsed_time st + dt\<rparr>)))"

function hydrograph_loop ::
  "('e, 'k, 'g) landlab \<Rightarrow> ('k, 'g) driver_state \<Rightarrow> 'e + ('k, 'g) driver_state" where
  "hydrograph_loop L st =
     (if real_of_int (elapsed_time st) < model_run_time_sec then
        (case loop_body L st of
           Inl e \<Rightarrow> Inl e
         | Inr st' \<Rightarrow> hydrograph_loop L st')
      else Inr st)"
  by pat_completeness auto
termination
proof (relation "measure (\<lambda>(L, st). nat (14400 - elapsed_time st))")
  show "wf (measure (\<lambda>(L :: ('e, 'k, 'g) landlab, st :: ('k, 'g) driver_state).
      nat (14400 - elapsed_time st)))"
    by simp
next
  fix L :: "('e, 'k, 'g) landlab" and st st' :: "('k, 'g) driver_state"
  assume run: "real_of_int (elapsed_time st) < model_run_time_sec"
    and body: "loop_body L st = Inr st'"
  from run have "elapsed_time st < 14400"
    by (simp add: model_run_time_sec_def model_run_time_def)
  moreover from body have "elapsed_time st' = elapsed_time st + 500"
    by (auto simp: loop_body_def dt_def split: sum.splits prod.splits)
  ultimately show "((L, st'), (L, st)) \<in> measure (\<lambda>(L, st). nat (14400 - elapsed_time st))"
    by simp
qed

text \<open>
  The state the loop starts from: the empty lists of the cell "Create empty lists",
  the component as the notebook constructs it on the grid, and \<^verbatim>\<open>elapsed_time=1\<close>.
\<close>

definition driver_init :: "('e, 'k, 'g) landlab \<Rightarrow> 'g \<Rightarrow> ('k, 'g) driver_state" where
  "driver_init L g =
     (case KinwaveImplicitOverlandFlow L g 0.0 n_roughness (5 / 3) of
        (k, g') \<Rightarrow>
          \<lparr>elapsed_time = 1,
           kw = k,
           rmg = g',
           hydrograph_time = [],
           discharge_at_outlet = [],
           discharge_midstream = [],
           discharge_upstream = [],
           printed = []\<rparr>)"

text \<open>
  A stand-in for the library, at which the loop can be evaluated: the component is
  the rate it holds, in m/s; an assigned rate that is not positive is refused; a step
  appends the rate the component holds to the grid, which is the list of the rates
  the steps ran with.
\<close>

definition recording_landlab :: "(string, real, real list) landlab" where
  "recording_landlab =
     \<lparr>KinwaveImplicitOverlandFlow = (\<lambda>g rr rough dexp. (rr / 3600000, g)),
      set_runoff_rate =
        (\<lambda>k r. if r > 0 then Inr (r / 3600000) else Inl ''AssertionError''),
      run_one_step = (\<lambda>k d g. (k, g @ [k])),
      inflow_discharge = (\<lambda>g i. 0),
      outlet_node_to_sample = 0,
      midstream_node_to_sample = 0,
      upstream_node_to_sample = 0\<rparr>"

section \<open>Properties of one iteration\<close>

lemma scheduled_rate_pos: "0 < scheduled_rate t"
  by (simp add: scheduled_rate_def starting_precip_mmhr_def)

lemma run_time_int: "(real_of_int e < model_run_time_sec) = (e < 14400)"
  by (simp add: model_run_time_sec_def model_run_time_def)

text \<open>
  Where the assignment takes every positive rate, one pass through the body does not
  fail: the step runs on the component the assignment of the scheduled rate has just
  returned, and the clock moves by \<open>dt\<close>.
\<close>

lemma loop_body_step:
  assumes ok: "\<And>k r. 0 < r \<Longrightarrow> \<exists>k'. set_runoff_rate L k r = Inr k'"
  shows "\<exists>st'. loop_body L st = Inr st' \<and>
     (kw st', rmg st') =
       run_one_step L (projr (set_runoff_rate L (kw st) (scheduled_rate (elapsed_time st))))
         dt (rmg st) \<and>
     hydrograph_time st' = hydrograph_time st @ [real_of_int (elapsed_time st) / 3600] \<and>
     elapsed_time st' = elapsed_time st + dt"
proof -
  from ok[OF scheduled_rate_pos] obtain k where
    k: "set_runoff_rate L (kw st) (scheduled_rate (elapsed_time st)) = Inr k"
    by blast
  obtain k' g where s: "run_one_step L k dt (rmg st) = (k', g)"
    by (cases "run_one_step L k dt (rmg st)")
  from k s show ?thesis by (simp add: loop_body_def)
qed

section \<open>Properties of the whole loop\<close>

text \<open>The elapsed times at which the loop still runs, from a given elapsed time on.\<close>

lemma times_unfold:
  assumes "e < 14400"
  shows "map (\<lambda>i. e + 500 * int i) [0..<nat ((14899 - e) div 500)] =
         e # map (\<lambda>i. (e + 500) + 500 * int i) [0..<nat ((14899 - (e + 500)) div 500)]"
proof -
  have "(14899 - e) div 500 = (14899 - (e + 500)) div 500 + 1" by simp
  moreover have "0 \<le> (14899 - (e + 500)) div 500" using assms by simp
  ultimately have "nat ((14899 - e) div 500) = Suc (nat ((14899 - (e + 500)) div 500))"
    by simp
  then show ?thesis by (simp add: map_upt_Suc algebra_simps del: upt_Suc)
qed

lemma times_done:
  assumes "\<not> e < (14400 :: int)"
  shows "map (\<lambda>i. e + 500 * int i) [0..<nat ((14899 - e) div 500)] = []"
proof -
  from assms have "(14899 - e) div 500 \<le> 0" by simp
  then show ?thesis by simp
qed

text \<open>
  From any state the loop ends without an exception, and what it leaves of component
  and grid is the fold, over the remaining elapsed times, of "assign the scheduled
  rate, then step".
\<close>

lemma hydrograph_loop_trace:
  assumes ok: "\<And>k r. 0 < r \<Longrightarrow> \<exists>k'. set_runoff_rate L k r = Inr k'"
  shows "\<exists>st'. hydrograph_loop L st = Inr st' \<and>
     (kw st', rmg st') =
       foldl (\<lambda>(k, g) t. run_one_step L (projr (set_runoff_rate L k (scheduled_rate t))) dt g)
         (kw st, rmg st)
         (map (\<lambda>i. elapsed_time st + 500 * int i)
            [0..<nat ((14899 - elapsed_time st) div 500)]) \<and>
     hydrograph_time st' =
       hydrograph_time st @
         map (\<lambda>t. real_of_int t / 3600)
           (map (\<lambda>i. elapsed_time st + 500 * int i)
              [0..<nat ((14899 - elapsed_time st) div 500)])"
  using ok
proof (induction L st rule: hydrograph_loop.induct)
  case (1 L st)
  show ?case
  proof (cases "real_of_int (elapsed_time st) < model_run_time_sec")
    case False
    then have "\<not> elapsed_time st < 14400" by (simp add: run_time_int)
    from times_done[OF this] False show ?thesis by simp
  next
    case True
    then have lt: "elapsed_time st < 14400" by (simp add: run_time_int)
    from loop_body_step[OF "1.prems"] obtain st1 where b: "loop_body L st = Inr st1"
      and s: "(kw st1, rmg st1) =
        run_one_step L (projr (set_runoff_rate L (kw st) (scheduled_rate (elapsed_time st))))
          dt (rmg st)"
      and h: "hydrograph_time st1 = hydrograph_time st @ [real_of_int (elapsed_time st) / 3600]"
      and e: "elapsed_time st1 = elapsed_time st + 500"
      unfolding dt_def by blast
    from "1.IH"[OF True b "1.prems"] obtain st' where
      r: "hydrograph_loop L st1 = Inr st'"
      and f: "(kw st', rmg st') =
       foldl (\<lambda>(k, g) t. run_one_step L (projr (set_runoff_rate L k (scheduled_rate t))) dt g)
         (kw st1, rmg st1)
         (map (\<lambda>i. elapsed_time st1 + 500 * int i)
            [0..<nat ((14899 - elapsed_time st1) div 500)])"
      and ht: "hydrograph_time st' =
       hydrograph_time st1 @
         map (\<lambda>t. real_of_int t / 3600)
           (map (\<lambda>i. elapsed_time st1 + 500 * int i)
              [0..<nat ((14899 - elapsed_time st1) div 500)])"
      by blast
    from True b r have "hydrograph_loop L st = Inr st'" by simp
    moreover from f s e have "(kw st', rmg st') =
       foldl (\<lambda>(k, g) t. run_one_step L (projr (set_runoff_rate L k (scheduled_rate t))) dt g)
         (kw st, rmg st)
         (map (\<lambda>i. elapsed_time st + 500 * int i)
            [0..<nat ((14899 - elapsed_time st) div 500)])"
      by (simp only: times_unfold[OF lt] foldl_Cons prod.case)
    moreover from ht h e have "hydrograph_time st' =
       hydrograph_time st @
         map (\<lambda>t. real_of_int t / 3600)
           (map (\<lambda>i. elapsed_time st + 500 * int i)
              [0..<nat ((14899 - elapsed_time st) div 500)])"
      by (simp only: times_unfold[OF lt] list.map append_Cons append_Nil append_assoc)
    ultimately show ?thesis by blast
  qed
qed

lemma times_29:
  "map (\<lambda>i. 1 + 500 * int i) [0..<29] =
   [1, 501, 1001, 1501, 2001, 2501, 3001, 3501, 4001, 4501, 5001, 5501, 6001, 6501, 7001,
    7501, 8001, 8501, 9001, 9501, 10001, 10501, 11001, 11501, 12001, 12501, 13001, 13501,
    14001]"
  by (simp add: upt_rec)


section \<open>The claim on the loop\<close>

text \<open>
  Claim C10. In the hydrograph loop every call of \<^verbatim>\<open>run_one_step\<close> comes after the
  same iteration has assigned a strictly positive runoff rate: 87 mm/hr while the
  elapsed time is below the storm duration, \<^verbatim>\<open>1e-20\<close> afterwards. Stated for every
  library whose assignment raises on no positive rate (an assertion that the rate is
  positive is of that kind): the loop ends without an exception; the component and
  the grid it leaves are those of 29 calls of \<^verbatim>\<open>run_one_step\<close>, at the elapsed times
  1, 501, ..., 14001 that \<^verbatim>\<open>hydrograph_time\<close> records, each call made on the component
  that the assignment of the scheduled rate of that iteration returned; and every one
  of these scheduled rates is positive, 87 or \<^verbatim>\<open>1e-20\<close>. So no step of the loop runs on
  a component that was last assigned a rate of zero or less.
\<close>

theorem hydrograph_loop_positive_runoff:
  assumes ok: "\<And>k r. 0 < r \<Longrightarrow> \<exists>k'. set_runoff_rate L k r = Inr k'"
  shows "\<exists>st'. hydrograph_loop L (driver_init L g) = Inr st' \<and>
     (kw st', rmg st') =
       foldl (\<lambda>(k, g) t. run_one_step L (projr (set_runoff_rate L k (scheduled_rate t))) dt g)
         (KinwaveImplicitOverlandFlow L g 0.0 n_roughness (5 / 3))
         (map (\<lambda>i. 1 + 500 * int i) [0..<29]) \<and>
     hydrograph_time st' = map (\<lambda>i. real_of_int (1 + 500 * int i) / 3600) [0..<29] \<and>
     (\<forall>t\<in>set (map (\<lambda>i. 1 + 500 * int i) [0..<29]).
        0 < scheduled_rate t \<and>
        scheduled_rate t =
          (if real_of_int t < storm_duration_sec then starting_precip_mmhr else 1 / 10 ^ 20))"
proof -
  obtain k0 g0 where c: "KinwaveImplicitOverlandFlow L g 0.0 n_roughness (5 / 3) = (k0, g0)"
    by (cases "KinwaveImplicitOverlandFlow L g 0.0 n_roughness (5 / 3)")
  have i: "elapsed_time (driver_init L g) = 1" "kw (driver_init L g) = k0"
    "rmg (driver_init L g) = g0" "hydrograph_time (driver_init L g) = []"
    using c by (simp_all add: driver_init_def)
  have n: "nat ((14899 - (1 :: int)) div 500) = 29" by simp
  from hydrograph_loop_trace[OF ok, of "driver_init L g"] obtain st' where
    "hydrograph_loop L (driver_init L g) = Inr st'"
    "(kw st', rmg st') =
       foldl (\<lambda>(k, g) t. run_one_step L (projr (set_runoff_rate L k (scheduled_rate t))) dt g)
         (k0, g0) (map (\<lambda>i. 1 + 500 * int i) [0..<29])"
    "hydrograph_time st' = map (\<lambda>t. real_of_int t / 3600) (map (\<lambda>i. 1 + 500 * int i) [0..<29])"
    unfolding i n by auto
  moreover have "\<forall>t\<in>set (map (\<lambda>i. 1 + 500 * int i) [0..<29]).
        0 < scheduled_rate t \<and>
        scheduled_rate t =
          (if real_of_int t < storm_duration_sec then starting_precip_mmhr else 1 / 10 ^ 20)"
    using scheduled_rate_pos unfolding scheduled_rate_def by blast
  ultimately show ?thesis unfolding c map_map o_def by blast
qed

text \<open>
  On the recording stand-in, whose assignment refuses what is not positive: the grid
  ends as the list of the rates the 29 steps ran with, eleven times 87 mm/hr and
  eighteen times \<^verbatim>\<open>1e-20\<close> mm/hr, in m/s; 5501 is the first elapsed time after the storm.
\<close>

theorem hydrograph_loop_positive_runoff_witness:
  "\<exists>st'. hydrograph_loop recording_landlab (driver_init recording_landlab []) = Inr st' \<and>
     rmg st' = replicate 11 (87 / 3600000) @ replicate 18 (1 / 10 ^ 20 / 3600000) \<and>
     hydrograph_time st' = map (\<lambda>i. real_of_int (1 + 500 * int i) / 3600) [0..<29] \<and>
     5501 \<in> set (map (\<lambda>i. 1 + 500 * int i) [0..<29]) \<and>
     0 < scheduled_rate 5501 \<and> scheduled_rate 5501 = 1 / 10 ^ 20"
proof -
  have ok: "\<exists>k'. set_runoff_rate recording_landlab k r = Inr k'" if "0 < r" for k r :: real
  proof -
    from that have "set_runoff_rate recording_landlab k r = Inr (r / 3600000)"
      by (simp add: recording_landlab_def)
    then show ?thesis by blast
  qed
  from hydrograph_loop_positive_runoff[OF ok, of "[]"] obtain st' where
    r: "hydrograph_loop recording_landlab (driver_init recording_landlab []) = Inr st'"
    and f: "(kw st', rmg st') =
       foldl (\<lambda>(k, g) t. run_one_step recording_landlab
                (projr (set_runoff_rate recording_landlab k (scheduled_rate t))) dt g)
         (KinwaveImplicitOverlandFlow recording_landlab [] 0.0 n_roughness (5 / 3))
         (map (\<lambda>i. 1 + 500 * int i) [0..<29])"
    and h: "hydrograph_time st' = map (\<lambda>i. real_of_int (1 + 500 * int i) / 3600) [0..<29]"
    and p: "\<forall>t\<in>set (map (\<lambda>i. 1 + 500 * int i) [0..<29]).
        0 < scheduled_rate t \<and>
        scheduled_rate t =
          (if real_of_int t < storm_duration_sec then starting_precip_mmhr else 1 / 10 ^ 20)"
    by blast
  have "snd (kw st', rmg st') =
      replicate 11 (87 / 3600000) @ replicate 18 (1 / 10 ^ 20 / 3600000)"
    unfolding f times_29
    by (simp add: recording_landlab_def scheduled_rate_def storm_duration_sec_def
        storm_duration_def starting_precip_mmhr_def numeral_eq_Suc)
  then have g: "rmg st' = replicate 11 (87 / 3600000) @ replicate 18 (1 / 10 ^ 20 / 3600000)"
    by simp
  have m: "5501 \<in> set (map (\<lambda>i. 1 + 500 * int i) [0..<29])"
    unfolding times_29 by simp
  with p have "0 < scheduled_rate 5501"
    and "scheduled_rate 5501 =
      (if real_of_int 5501 < storm_duration_sec then starting_precip_mmhr else 1 / 10 ^ 20)"
    by blast+
  then have "0 < scheduled_rate 5501" and "scheduled_rate 5501 = 1 / 10 ^ 20"
    by (simp_all add: storm_duration_sec_def storm_duration_def)
  with r g h m show ?thesis by blast
qed

end
